theory Spec2Isabelle
  imports Main "HOL-Library.AList"
begin

section \<open>Python values, types and dictionaries\<close>

text \<open>
  The utilities of \<^verbatim>\<open>tikki/utils.py\<close> handle untyped request payloads. The values
  that occur in them are modelled by \<open>pyval\<close>; a naive \<^verbatim>\<open>datetime.datetime\<close> is
  its position on the time line of its calendar, in microseconds. The class
  of a value is a \<open>pytype\<close>; \<open>TObject\<close> is \<^verbatim>\<open>object\<close>, the base of every class.
\<close>

datatype pyval =
    PNone
  | PBool bool
  | PInt int
  | PStr string
  | PDateTime int
  | PList "pyval list"

datatype pytype = TNoneType | TBool | TInt | TStr | TDateTime | TList | TObject

text \<open>\<^verbatim>\<open>type(value)\<close>.\<close>

fun type_of :: "pyval \<Rightarrow> pytype" where
  "type_of PNone = TNoneType"
| "type_of (PBool b) = TBool"
| "type_of (PInt i) = TInt"
| "type_of (PStr s) = TStr"
| "type_of (PDateTime d) = TDateTime"
| "type_of (PList vs) = TList"

text \<open>
  \<^verbatim>\<open>issubclass(a, b)\<close>: every class derives from \<^verbatim>\<open>object\<close>, and \<^verbatim>\<open>bool\<close> derives
  from \<^verbatim>\<open>int\<close>. \<^verbatim>\<open>isinstance(value, t)\<close> asks it of the class of the value.
\<close>

definition issubclass :: "pytype \<Rightarrow> pytype \<Rightarrow> bool" where
  "issubclass a b \<longleftrightarrow> a = b \<or> b = TObject \<or> (a = TBool \<and> b = TInt)"

definition isinstance :: "pyval \<Rightarrow> pytype \<Rightarrow> bool" where
  "isinstance value t \<longleftrightarrow> issubclass (type_of value) t"

text \<open>The truth value of an object in a condition (\<^verbatim>\<open>if x:\<close>).\<close>

fun truthy :: "pyval \<Rightarrow> bool" where
  "truthy PNone = False"
| "truthy (PBool b) = b"
| "truthy (PInt i) = (i \<noteq> 0)"
| "truthy (PStr s) = (s \<noteq> [])"
| "truthy (PDateTime d) = True"
| "truthy (PList vs) = (vs \<noteq> [])"

text \<open>
  A \<^verbatim>\<open>dict\<close> keeps its items in insertion order, each key once: it is an association
  list. \<^verbatim>\<open>d[k] = v\<close> is \<^const>\<open>AList.update\<close>, which replaces the value of a key in
  place and appends a new key at the end. \<^verbatim>\<open>d.get(k, default)\<close> is \<open>dict_get\<close>,
  \<^verbatim>\<open>d.update(other)\<close> is \<open>dict_update\<close>.
\<close>

type_synonym 'v dict = "(string \<times> 'v) list"

definition dict_get :: "'v dict \<Rightarrow> string \<Rightarrow> 'v \<Rightarrow> 'v" where
  "dict_get d key default_value = (case map_of d key of Some v \<Rightarrow> v | None \<Rightarrow> default_value)"

definition dict_update :: "'v dict \<Rightarrow> 'v dict \<Rightarrow> 'v dict" where
  "dict_update d other = fold (\<lambda>(k, v). AList.update k v) other d"

text \<open>The exceptions that reach the callers of these utilities.\<close>

datatype error =
    AppException string
  | ValueError string
  | TypeError string

section \<open>The libraries the utilities call\<close>

text \<open>
  Two functions of third-party packages are called and are parameters of the model:
  \<^item> \<open>dateutil_parse s\<close> is \<^verbatim>\<open>dateutil.parser.parse(s, ignoretz=True)\<close>, which
    returns a naive date-time or raises;
  \<^item> \<open>multidict_get d key default type\<close> is werkzeug's
    \<^verbatim>\<open>MultiDict.get(key, default, type)\<close>, the typed lookup in a multi-value
    mapping.
  A \<open>libs\<close> is the behaviour of the two during a call: the parser fills the fields
  that a string leaves out from the date of the day, so two calls on different days
  can meet different parsers.
\<close>

type_synonym multidict = "(string \<times> pyval list) list"

record libs =
  dateutil_parse :: "string \<Rightarrow> error + int"
  multidict_get :: "multidict \<Rightarrow> string \<Rightarrow> pyval \<Rightarrow> pytype \<Rightarrow> error + pyval"

text \<open>
  The object passed as \<^verbatim>\<open>received\<close>: a plain \<^verbatim>\<open>dict\<close>, a \<^verbatim>\<open>MultiDict\<close>, or an
  object of another class, of which only the class name is used.
\<close>

datatype source =
    Dict "pyval dict"
  | MultiDict multidict
  | Other string

section \<open>Coercion and lookup\<close>

text \<open>
  \<^verbatim>\<open>
  def parse_value(value, default_type):
      if default_type is datetime.datetime and isinstance(value, str):
          return dateutil.parser.parse(value, ignoretz=True)
      return value if isinstance(value, default_type) else None
  \<close>
\<close>

text \<open>
  A value is an instance of \<^verbatim>\<open>str\<close> exactly when it is a \<open>PStr\<close>, so the first
  equation is the branch of the date-time strings; the second is the last line.
\<close>

fun parse_value :: "libs \<Rightarrow> pyval \<Rightarrow> pytype \<Rightarrow> error + pyval" where
  "parse_value L (PStr s) TDateTime =
     (case dateutil_parse L s of Inl e \<Rightarrow> Inl e | Inr d \<Rightarrow> Inr (PDateTime d))"
| "parse_value L value default_type =
     Inr (if isinstance value default_type then value else PNone)"

text \<open>
  \<^verbatim>\<open>
  def get_anydict_value(source_dict, key, default_value, default_type):
      if isinstance(source_dict, MultiDict):
          value = source_dict.get(key, default_value, default_type)
          return parse_value(value, default_type)
      elif isinstance(source_dict, dict):
          value = source_dict.get(key, default_value)
          return parse_value(value, default_type)
      raise AppException('Unsupported source_dict type: ' + type(source_dict).__name__)
  \<close>
\<close>

fun get_anydict_value ::
  "libs \<Rightarrow> source \<Rightarrow> string \<Rightarrow> pyval \<Rightarrow> pytype \<Rightarrow> error + pyval" where
  "get_anydict_value L (MultiDict d) key default_value default_type =
     (case multidict_get L d key default_value default_type of
        Inl e \<Rightarrow> Inl e
      | Inr value \<Rightarrow> parse_value L value default_type)"
| "get_anydict_value L (Dict d) key default_value default_type =
     parse_value L (dict_get d key default_value) default_type"
| "get_anydict_value L (Other name) key default_value default_type =
     Inl (AppException (''Unsupported source_dict type: '' @ name))"

section \<open>The field extractor\<close>

text \<open>
  The three loops of \<^verbatim>\<open>get_args\<close> run over the items of a group in order and
  carry the list \<^verbatim>\<open>missing\<close> and the dictionary \<^verbatim>\<open>ret_dict\<close>; an exception of a
  lookup leaves the loop and the call.
  \<^verbatim>\<open>
  for key, default_type in required.items():
      val = get_anydict_value(received, key, None, default_type)
      if val is None:
          missing.append(key)
      ret_dict[key] = val
  \<close>
\<close>

fun required_loop ::
  "libs \<Rightarrow> source \<Rightarrow> pytype dict \<Rightarrow> string list \<Rightarrow> pyval dict
     \<Rightarrow> error + (string list \<times> pyval dict)" where
  "required_loop L received [] missing ret_dict = Inr (missing, ret_dict)"
| "required_loop L received ((key, default_type) # rest) missing ret_dict =
     (case get_anydict_value L received key PNone default_type of
        Inl e \<Rightarrow> Inl e
      | Inr val \<Rightarrow>
          required_loop L received rest
            (if val = PNone then missing @ [key] else missing)
            (AList.update key val ret_dict))"

text \<open>
  \<^verbatim>\<open>
  for key, default_value in defaultable.items():
      default_type = type(default_value)
      val = get_anydict_value(received, key, default_value, default_type)
      ret_dict[key] = val
  \<close>
\<close>

fun defaultable_loop ::
  "libs \<Rightarrow> source \<Rightarrow> pyval dict \<Rightarrow> pyval dict \<Rightarrow> error + pyval dict" where
  "defaultable_loop L received [] ret_dict = Inr ret_dict"
| "defaultable_loop L received ((key, default_value) # rest) ret_dict =
     (case get_anydict_value L received key default_value (type_of default_value) of
        Inl e \<Rightarrow> Inl e
      | Inr val \<Rightarrow> defaultable_loop L received rest (AList.update key val ret_dict))"

text \<open>
  \<^verbatim>\<open>
  for key, default_type in optional.items():
      val = get_anydict_value(received, key, None, default_type)
      if val is not None:
          ret_dict[key] = val
  \<close>
\<close>

fun optional_loop ::
  "libs \<Rightarrow> source \<Rightarrow> pytype dict \<Rightarrow> pyval dict \<Rightarrow> error + pyval dict" where
  "optional_loop L received [] ret_dict = Inr ret_dict"
| "optional_loop L received ((key, default_type) # rest) ret_dict =
     (case get_anydict_value L received key PNone default_type of
        Inl e \<Rightarrow> Inl e
      | Inr val \<Rightarrow>
          optional_loop L received rest
            (if val \<noteq> PNone then AList.update key val ret_dict else ret_dict))"

text \<open>
  \<^verbatim>\<open>
  msg = "Missing following arguments:"
  for arg in missing:
      msg += ' ' + arg
  \<close>
\<close>

definition missing_msg :: "string list \<Rightarrow> string" where
  "missing_msg missing = foldl (\<lambda>msg arg. msg @ '' '' @ arg) ''Missing following arguments:'' missing"

text \<open>
  \<^verbatim>\<open>group if group else {}\<close>: an omitted group (\<^verbatim>\<open>None\<close>) and an empty one both
  become the empty dictionary.
\<close>

definition or_empty :: "'v dict option \<Rightarrow> 'v dict" where
  "or_empty grp = (case grp of None \<Rightarrow> [] | Some d \<Rightarrow> if d \<noteq> [] then d else [])"

text \<open>
  \<^verbatim>\<open>get_args(received, required=None, defaultable=None, optional=None, constant=None)\<close>:
  the check that a group was passed, the three loops,
  \<^verbatim>\<open>ret_dict.update(constant)\<close>, and the check of \<^verbatim>\<open>missing\<close>.
\<close>

definition get_args ::
  "libs \<Rightarrow> source \<Rightarrow> pytype dict option \<Rightarrow> pyval dict option \<Rightarrow> pytype dict option
     \<Rightarrow> pyval dict option \<Rightarrow> error + pyval dict" where
  "get_args L received required defaultable optional constant =
     (if required = None \<and> defaultable = None \<and> optional = None \<and> constant = None then
        Inl (AppException
          ''One of the following is required: required, defaultable, optional or constant.'')
      else
        (case required_loop L received (or_empty required) [] [] of
           Inl e \<Rightarrow> Inl e
         | Inr (missing, ret_dict1) \<Rightarrow>
        (case defaultable_loop L received (or_empty defaultable) ret_dict1 of
           Inl e \<Rightarrow> Inl e
         | Inr ret_dict2 \<Rightarrow>
        (case optional_loop L received (or_empty optional) ret_dict2 of
           Inl e \<Rightarrow> Inl e
         | Inr ret_dict3 \<Rightarrow>
             (let ret_dict = dict_update ret_dict3 (or_empty constant) in
              if length missing > 0 then Inl (AppException (missing_msg missing))
              else Inr ret_dict)))))"

section \<open>Configuration from the environment\<close>

text \<open>
  \<^verbatim>\<open>
  def _add_config_from_env(app, config_key, env_variable, missing_list=None,
                           default_value=None) -> bool:
      val = os.environ.get(env_variable, None)
      if val is not None:
          app.config[config_key] = val
          return True
      elif default_value:
          app.config[config_key] = default_value
          return True
      if missing_list is not None:
          missing_list.append(env_variable)
      return False
  \<close>
  The function reads \<^verbatim>\<open>os.environ\<close> and writes \<^verbatim>\<open>app.config\<close> and the list
  \<^verbatim>\<open>missing_list\<close>; the model takes the three and returns the result together with
  the configuration and the list as the call leaves them.
\<close>

definition add_config_from_env ::
  "string dict \<Rightarrow> pyval dict \<Rightarrow> string \<Rightarrow> string \<Rightarrow> string list option \<Rightarrow> pyval
     \<Rightarrow> bool \<times> pyval dict \<times> string list option" where
  "add_config_from_env environ config config_key env_variable missing_list default_value =
     (case map_of environ env_variable of
        Some val \<Rightarrow> (True, AList.update config_key (PStr val) config, missing_list)
      | None \<Rightarrow>
          if truthy default_value then
            (True, AList.update config_key default_value config, missing_list)
          else
            (False, config,
             (case missing_list of None \<Rightarrow> None | Some l \<Rightarrow> Some (l @ [env_variable]))))"

section \<open>Notions of the specification\<close>

text \<open>
  The value a lookup hands to a loop of \<^verbatim>\<open>get_args\<close>; a lookup that raises hands
  over nothing, and \<open>returns\<close> tells the two apart.
\<close>

definition returns :: "error + pyval \<Rightarrow> bool" where
  "returns r = (case r of Inl e \<Rightarrow> False | Inr v \<Rightarrow> True)"

definition result_of :: "error + pyval \<Rightarrow> pyval" where
  "result_of r = (case r of Inl e \<Rightarrow> PNone | Inr v \<Rightarrow> v)"

text \<open>
  The contribution of each group to the output, as the specification describes it:
  the coerced value of every required key, the coerced value of every defaultable key,
  and the coerced values of the optional keys that are not absent.
\<close>

definition required_values :: "libs \<Rightarrow> source \<Rightarrow> pytype dict \<Rightarrow> pyval dict" where
  "required_values L received required =
     map (\<lambda>(key, default_type).
            (key, result_of (get_anydict_value L received key PNone default_type))) required"

definition defaultable_values :: "libs \<Rightarrow> source \<Rightarrow> pyval dict \<Rightarrow> pyval dict" where
  "defaultable_values L received defaultable =
     map (\<lambda>(key, default_value).
            (key, result_of (get_anydict_value L received key default_value
                               (type_of default_value)))) defaultable"

definition optional_values :: "libs \<Rightarrow> source \<Rightarrow> pytype dict \<Rightarrow> pyval dict" where
  "optional_values L received optional =
     filter (\<lambda>(key, val). val \<noteq> PNone) (required_values L received optional)"

text \<open>
  The specification's output mapping: the four contributions merged in the order
  required, defaultable, optional, constant, a later one overwriting an earlier one.
\<close>

definition merge_groups ::
  "pyval dict \<Rightarrow> pyval dict \<Rightarrow> pyval dict \<Rightarrow> pyval dict \<Rightarrow> pyval dict" where
  "merge_groups rs ds os cs = dict_update (dict_update (dict_update (dict_update [] rs) ds) os) cs"

text \<open>The required keys whose lookup yields absent, in the order of the group.\<close>

definition missing_fields :: "libs \<Rightarrow> source \<Rightarrow> pytype dict \<Rightarrow> string list" where
  "missing_fields L received required =
     map fst (filter (\<lambda>(key, default_type).
                        get_anydict_value L received key PNone default_type = Inr PNone) required)"

text \<open>Every lookup that a call of \<^verbatim>\<open>get_args\<close> can make returns.\<close>

definition lookups_return ::
  "libs \<Rightarrow> source \<Rightarrow> pytype dict \<Rightarrow> pyval dict \<Rightarrow> pytype dict \<Rightarrow> bool" where
  "lookups_return L received required defaultable optional \<longleftrightarrow>
     list_all (\<lambda>(key, default_type).
                 returns (get_anydict_value L received key PNone default_type)) required
     \<and> list_all (\<lambda>(key, default_value).
                 returns (get_anydict_value L received key default_value
                            (type_of default_value))) defaultable
     \<and> list_all (\<lambda>(key, default_type).
                 returns (get_anydict_value L received key PNone default_type)) optional"

text \<open>
  The results of the lookups that a call of \<^verbatim>\<open>get_args\<close> makes when none raises, in
  the order of the call, and the exception of the first one that raises.
\<close>

definition lookups ::
  "libs \<Rightarrow> source \<Rightarrow> pytype dict \<Rightarrow> pyval dict \<Rightarrow> pytype dict \<Rightarrow> (error + pyval) list" where
  "lookups L received required defaultable optional =
     map (\<lambda>(key, default_type). get_anydict_value L received key PNone default_type) required
     @ map (\<lambda>(key, default_value).
              get_anydict_value L received key default_value (type_of default_value)) defaultable
     @ map (\<lambda>(key, default_type). get_anydict_value L received key PNone default_type) optional"

fun first_error :: "(error + pyval) list \<Rightarrow> error option" where
  "first_error [] = None"
| "first_error (Inl e # rs) = Some e"
| "first_error (Inr v # rs) = first_error rs"


section \<open>Identity tokens\<close>

text \<open>
  \<^verbatim>\<open>
  def create_jwt_identity(user: tables.Base) -> Dict[str, Any]:
      identity: Dict[str, Any] = {'sub': str(user.id), 'rol': user.type_id}
      now = datetime.datetime.utcnow()
      identity["iat"] = int(now.timestamp())
      identity["exp"] = int((now + datetime.timedelta(days=1)).timestamp())
      return identity
  \<close>
  The class of \<^verbatim>\<open>user\<close> is declared in \<^verbatim>\<open>tikki.db.tables\<close>; of a user the function
  reads the attributes \<^verbatim>\<open>id\<close> and \<^verbatim>\<open>type_id\<close>, and \<open>str_of_id\<close> is \<^verbatim>\<open>str\<close> on
  the class of \<^verbatim>\<open>id\<close>. The function reads the clock of the process: \<open>utcnow\<close> is
  the naive date-time \<^verbatim>\<open>datetime.datetime.utcnow()\<close> at the call, in microseconds as
  in \<open>PDateTime\<close>, and \<open>timestamp d\<close> is \<^verbatim>\<open>int(d.timestamp())\<close>, the whole seconds
  since the epoch of the naive date-time \<open>d\<close> read in the local time of the process.
  \<^verbatim>\<open>datetime.timedelta(days=1)\<close> is 86400 seconds of a million microseconds.
\<close>

record 'i user =
  user_id :: 'i
  type_id :: pyval

record 'i platform =
  str_of_id :: "'i \<Rightarrow> string"
  utcnow :: int
  timestamp :: "int \<Rightarrow> int"

definition timedelta_days :: "int \<Rightarrow> int" where
  "timedelta_days n = n * 86400 * 1000000"

definition create_jwt_identity :: "'i platform \<Rightarrow> 'i user \<Rightarrow> pyval dict" where
  "create_jwt_identity P user =
     (let identity = [(''sub'', PStr (str_of_id P (user_id user))), (''rol'', type_id user)];
          now = utcnow P;
          identity = AList.update ''iat'' (PInt (timestamp P now)) identity;
          identity = AList.update ''exp'' (PInt (timestamp P (now + timedelta_days 1))) identity
      in identity)"

section \<open>The objects a call shares with its caller\<close>

text \<open>
  \<^verbatim>\<open>get_args\<close> receives references: the dictionaries it is passed are objects of the
  caller, and the dictionary it returns is a new object. A \<open>store\<close> holds the
  dictionaries of values (sources, defaultable and constant groups, results) and the
  dictionaries of types (required and optional groups) by address; the addresses below
  \<open>next_free\<close> are in use. A \<^verbatim>\<open>MultiDict\<close> and an object of another class are only
  asked for a value, or for the name of their class, and are passed as they are.
\<close>

type_synonym addr = nat

record store =
  dicts :: "addr \<Rightarrow> pyval dict"
  typedicts :: "addr \<Rightarrow> pytype dict"
  next_free :: addr

datatype received = DictAt addr | MultiDictObj multidict | OtherObj string

fun source_of :: "store \<Rightarrow> received \<Rightarrow> source" where
  "source_of s (DictAt a) = Dict (dicts s a)"
| "source_of s (MultiDictObj d) = MultiDict d"
| "source_of s (OtherObj name) = Other name"

text \<open>\<^verbatim>\<open>d[key] = val\<close> on the dictionary at an address.\<close>

definition setitem :: "addr \<Rightarrow> string \<Rightarrow> pyval \<Rightarrow> store \<Rightarrow> store" where
  "setitem a key val s = s\<lparr>dicts := (dicts s)(a := AList.update key val (dicts s a))\<rparr>"




text \<open>
  \<^verbatim>\<open>group if group else {}\<close> on references: the local variable keeps the reference
  it was passed when the dictionary there is not empty, and is a new empty dictionary
  otherwise, which is never written and never leaves the call (\<open>None\<close> below).
\<close>

definition nonempty_ref :: "(addr \<Rightarrow> 'v dict) \<Rightarrow> addr option \<Rightarrow> addr option" where
  "nonempty_ref objs grp =
     (case grp of None \<Rightarrow> None | Some a \<Rightarrow> if objs a \<noteq> [] then Some a else None)"

text \<open>\<^verbatim>\<open>group.items()\<close> of such a local variable.\<close>

definition items :: "(addr \<Rightarrow> 'v dict) \<Rightarrow> addr option \<Rightarrow> 'v dict" where
  "items objs grp = (case grp of None \<Rightarrow> [] | Some a \<Rightarrow> objs a)"




section \<open>An instance of the libraries\<close>

text \<open>
  A concrete instance for the examples. Its parser raises \<^verbatim>\<open>ValueError\<close> on the empty
  string, as \<^verbatim>\<open>dateutil.parser.parse('')\<close> does, and stands every other string for
  the first instant; its typed lookup returns the default for a missing key and for a
  first value of another class than the one asked for. No theorem below depends on
  more of it than the examples evaluate.
\<close>

definition stub_libs :: libs where
  "stub_libs = \<lparr>
     dateutil_parse =
       (\<lambda>s. if s = [] then Inl (ValueError ''String does not contain a date.'') else Inr 0),
     multidict_get =
       (\<lambda>d key default_value default_type.
          case map_of d key of
            Some (v # vs) \<Rightarrow> if type_of v = default_type then Inr v else Inr default_value
          | _ \<Rightarrow> Inr default_value) \<rparr>"



text \<open>
  A process whose local time is UTC, with date-times counted from the epoch, and users
  whose \<^verbatim>\<open>id\<close> is a string.
\<close>

definition example_platform :: "string platform" where
  "example_platform = \<lparr>
     str_of_id = (\<lambda>i. i),
     utcnow = 1541289600123456,
     timestamp = (\<lambda>d. d div 1000000) \<rparr>"

section \<open>Dictionaries\<close>

lemma update_fresh: "k \<notin> fst ` set d \<Longrightarrow> AList.update k v d = d @ [(k, v)]"
  by (induction d) auto

lemma fold_update_fresh:
  "distinct (map fst (d @ c)) \<Longrightarrow> fold (\<lambda>(k, v). AList.update k v) c d = d @ c"
proof (induction c arbitrary: d)
  case Nil
  then show ?case by simp
next
  case (Cons p c)
  obtain k v where p: "p = (k, v)" by (cases p)
  from Cons.prems have "k \<notin> fst ` set d" by (auto simp: p)
  then have u: "AList.update k v d = d @ [(k, v)]" by (rule update_fresh)
  from Cons.prems have "distinct (map fst ((d @ [(k, v)]) @ c))" by (auto simp: p)
  from Cons.IH[OF this] show ?case by (simp add: p u)
qed

lemma dict_update_empty: "distinct (map fst c) \<Longrightarrow> dict_update [] c = c"
  using fold_update_fresh[of "[]" c] by (simp add: dict_update_def)

lemma dict_update_Nil [simp]: "dict_update d [] = d"
  by (simp add: dict_update_def)

lemma dict_update_Cons [simp]:
  "dict_update d ((k, v) # rest) = dict_update (AList.update k v d) rest"
  by (simp add: dict_update_def)

lemma or_empty_simps [simp]: "or_empty None = []" "or_empty (Some d) = d"
  by (simp_all add: or_empty_def)


lemma keys_dict_update: "fst ` set (dict_update d c) = fst ` set d \<union> fst ` set c"
proof (induction c arbitrary: d)
  case Nil
  then show ?case by simp
next
  case (Cons p c)
  obtain k v where p: "p = (k, v)" by (cases p)
  have "fst ` set (dict_update d (p # c)) = fst ` set (AList.update k v d) \<union> fst ` set c"
    by (simp add: p Cons.IH)
  also have "\<dots> = fst ` set d \<union> fst ` set (p # c)"
    by (simp add: AList.dom_update p)
  finally show ?case .
qed

lemma map_of_dict_update: "map_of (dict_update d c) = map_of d ++ map_of (rev c)"
proof (induction c arbitrary: d)
  case Nil
  then show ?case by simp
next
  case (Cons p c)
  obtain k v where p: "p = (k, v)" by (cases p)
  have "map_of (dict_update d (p # c)) = map_of (AList.update k v d) ++ map_of (rev c)"
    by (simp add: p Cons.IH)
  also have "\<dots> = (map_of d)(k \<mapsto> v) ++ map_of (rev c)"
    by (simp only: AList.update_conv')
  also have "\<dots> = map_of d ++ map_of (rev (p # c))"
    by (auto simp: p map_add_def fun_eq_iff split: option.splits)
  finally show ?case .
qed

lemma map_of_rev_distinct: "distinct (map fst c) \<Longrightarrow> map_of (rev c) = map_of c"
proof (induction c)
  case Nil
  then show ?case by simp
next
  case (Cons p c)
  obtain k v where p: "p = (k, v)" by (cases p)
  from Cons.prems have fresh: "map_of c k = None" and dc: "distinct (map fst c)"
    by (auto simp: p map_of_eq_None_iff)
  show ?case
    using fresh by (auto simp: p Cons.IH[OF dc] map_add_def fun_eq_iff split: option.splits)
qed

lemma constant_wins:
  "distinct (map fst c) \<Longrightarrow> map_of c k = Some v \<Longrightarrow> map_of (dict_update d c) k = Some v"
  by (simp add: map_of_dict_update map_of_rev_distinct)

section \<open>Lookups\<close>

lemma returns_simps [simp]: "returns (Inr v)" "\<not> returns (Inl e)"
  by (simp_all add: returns_def)

lemma result_of_simps [simp]: "result_of (Inr v) = v" "result_of (Inl e) = PNone"
  by (simp_all add: result_of_def)

lemma parse_value_Inl:
  "parse_value L v t = Inl e \<Longrightarrow> \<exists>s. v = PStr s \<and> t = TDateTime \<and> dateutil_parse L s = Inl e"
  by (cases "(L, v, t)" rule: parse_value.cases) (auto split: sum.splits)

lemma parse_value_no_date:
  "\<not> (t = TDateTime \<and> (\<exists>s. v = PStr s)) \<Longrightarrow>
     parse_value L v t = Inr (if isinstance v t then v else PNone)"
  by (cases "(L, v, t)" rule: parse_value.cases) auto

lemma parse_value_date:
  "parse_value L (PStr s) TDateTime =
     (case dateutil_parse L s of Inl e \<Rightarrow> Inl e | Inr d \<Rightarrow> Inr (PDateTime d))"
  by simp

section \<open>The loops\<close>

lemma required_loop_Inr:
  assumes "required_loop L received R missing ret_dict = Inr (missing', ret')"
  shows "list_all (\<lambda>(key, t). returns (get_anydict_value L received key PNone t)) R
       \<and> missing' = missing @ missing_fields L received R
       \<and> ret' = dict_update ret_dict (required_values L received R)"
  using assms
proof (induction R arbitrary: missing ret_dict)
  case Nil
  then show ?case by (simp add: missing_fields_def required_values_def)
next
  case (Cons p R)
  obtain key t where p: "p = (key, t)" by (cases p)
  from Cons.prems obtain val where
    v: "get_anydict_value L received key PNone t = Inr val" and
    rest: "required_loop L received R (if val = PNone then missing @ [key] else missing)
             (AList.update key val ret_dict) = Inr (missing', ret')"
    by (auto simp: p split: sum.splits)
  from Cons.IH[OF rest] v show ?case
    by (auto simp: p missing_fields_def required_values_def)
qed

lemma required_loop_returns:
  assumes "list_all (\<lambda>(key, t). returns (get_anydict_value L received key PNone t)) R"
  shows "required_loop L received R missing ret_dict =
           Inr (missing @ missing_fields L received R,
                dict_update ret_dict (required_values L received R))"
  using assms
proof (induction R arbitrary: missing ret_dict)
  case Nil
  then show ?case by (simp add: missing_fields_def required_values_def)
next
  case (Cons p R)
  obtain key t where p: "p = (key, t)" by (cases p)
  from Cons.prems obtain val where v: "get_anydict_value L received key PNone t = Inr val"
    by (cases "get_anydict_value L received key PNone t") (auto simp: p)
  from Cons.prems have "list_all (\<lambda>(key, t). returns (get_anydict_value L received key PNone t)) R"
    by simp
  from Cons.IH[OF this] v show ?case
    by (auto simp: p missing_fields_def required_values_def)
qed

lemma required_loop_Inl:
  assumes "required_loop L received R missing ret_dict = Inl e"
  shows "\<exists>(key, t) \<in> set R. get_anydict_value L received key PNone t = Inl e"
  using assms
proof (induction R arbitrary: missing ret_dict)
  case Nil
  then show ?case by simp
next
  case (Cons p R)
  obtain key t where p: "p = (key, t)" by (cases p)
  show ?case
  proof (cases "get_anydict_value L received key PNone t")
    case (Inl e')
    with Cons.prems show ?thesis by (simp add: p)
  next
    case (Inr val)
    with Cons.prems Cons.IH show ?thesis by (fastforce simp: p)
  qed
qed

lemma defaultable_loop_Inr:
  assumes "defaultable_loop L received D ret_dict = Inr ret'"
  shows "list_all (\<lambda>(key, dv). returns (get_anydict_value L received key dv (type_of dv))) D
       \<and> ret' = dict_update ret_dict (defaultable_values L received D)"
  using assms
proof (induction D arbitrary: ret_dict)
  case Nil
  then show ?case by (simp add: defaultable_values_def)
next
  case (Cons p D)
  obtain key dv where p: "p = (key, dv)" by (cases p)
  from Cons.prems obtain val where
    v: "get_anydict_value L received key dv (type_of dv) = Inr val" and
    rest: "defaultable_loop L received D (AList.update key val ret_dict) = Inr ret'"
    by (auto simp: p split: sum.splits)
  from Cons.IH[OF rest] v show ?case
    by (auto simp: p defaultable_values_def)
qed

lemma defaultable_loop_returns:
  assumes "list_all (\<lambda>(key, dv). returns (get_anydict_value L received key dv (type_of dv))) D"
  shows "defaultable_loop L received D ret_dict =
           Inr (dict_update ret_dict (defaultable_values L received D))"
  using assms
proof (induction D arbitrary: ret_dict)
  case Nil
  then show ?case by (simp add: defaultable_values_def)
next
  case (Cons p D)
  obtain key dv where p: "p = (key, dv)" by (cases p)
  from Cons.prems obtain val where v: "get_anydict_value L received key dv (type_of dv) = Inr val"
    by (cases "get_anydict_value L received key dv (type_of dv)") (auto simp: p)
  from Cons.prems
  have "list_all (\<lambda>(key, dv). returns (get_anydict_value L received key dv (type_of dv))) D"
    by simp
  from Cons.IH[OF this] v show ?case
    by (auto simp: p defaultable_values_def)
qed

lemma optional_loop_Inr:
  assumes "optional_loop L received O' ret_dict = Inr ret'"
  shows "list_all (\<lambda>(key, t). returns (get_anydict_value L received key PNone t)) O'
       \<and> ret' = dict_update ret_dict (optional_values L received O')"
  using assms
proof (induction O' arbitrary: ret_dict)
  case Nil
  then show ?case by (simp add: optional_values_def required_values_def)
next
  case (Cons p O')
  obtain key t where p: "p = (key, t)" by (cases p)
  from Cons.prems obtain val where
    v: "get_anydict_value L received key PNone t = Inr val" and
    rest: "optional_loop L received O' (if val \<noteq> PNone then AList.update key val ret_dict
             else ret_dict) = Inr ret'"
    by (auto simp: p split: sum.splits)
  from Cons.IH[OF rest] v show ?case
    by (auto simp: p optional_values_def required_values_def)
qed

lemma optional_loop_returns:
  assumes "list_all (\<lambda>(key, t). returns (get_anydict_value L received key PNone t)) O'"
  shows "optional_loop L received O' ret_dict =
           Inr (dict_update ret_dict (optional_values L received O'))"
  using assms
proof (induction O' arbitrary: ret_dict)
  case Nil
  then show ?case by (simp add: optional_values_def required_values_def)
next
  case (Cons p O')
  obtain key t where p: "p = (key, t)" by (cases p)
  from Cons.prems obtain val where v: "get_anydict_value L received key PNone t = Inr val"
    by (cases "get_anydict_value L received key PNone t") (auto simp: p)
  from Cons.prems have "list_all (\<lambda>(key, t). returns (get_anydict_value L received key PNone t)) O'"
    by simp
  from Cons.IH[OF this] v show ?case
    by (auto simp: p optional_values_def required_values_def)
qed

lemma missing_msg_foldl:
  "foldl (\<lambda>msg arg. msg @ '' '' @ arg) acc missing = acc @ concat (map (\<lambda>arg. '' '' @ arg) missing)"
  by (induction missing arbitrary: acc) simp_all

lemma missing_msg_concat:
  "missing_msg missing = ''Missing following arguments:'' @ concat (map (\<lambda>arg. '' '' @ arg) missing)"
  unfolding missing_msg_def by (rule missing_msg_foldl)

lemma keys_required_values: "fst ` set (required_values L received R) = fst ` set R"
  by (force simp: required_values_def)

lemma keys_defaultable_values: "fst ` set (defaultable_values L received D) = fst ` set D"
  by (force simp: defaultable_values_def)

lemma keys_optional_values:
  assumes "list_all (\<lambda>(key, t). returns (get_anydict_value L received key PNone t)) O'"
  shows "fst ` set (optional_values L received O') =
           {key. \<exists>t v. (key, t) \<in> set O' \<and> get_anydict_value L received key PNone t = Inr v \<and> v \<noteq> PNone}"
proof -
  have r: "get_anydict_value L received key PNone t = Inr (result_of (get_anydict_value L received key PNone t))"
    if "(key, t) \<in> set O'" for key t
    using assms that by (cases "get_anydict_value L received key PNone t") (auto simp: list_all_iff)
  show ?thesis
  proof (intro set_eqI iffI)
    fix key assume "key \<in> fst ` set (optional_values L received O')"
    then obtain t where "(key, t) \<in> set O'" "result_of (get_anydict_value L received key PNone t) \<noteq> PNone"
      by (auto simp: optional_values_def required_values_def)
    with r[of key t] show "key \<in> {key. \<exists>t v. (key, t) \<in> set O' \<and> get_anydict_value L received key PNone t = Inr v \<and> v \<noteq> PNone}"
      by auto
  next
    fix key assume "key \<in> {key. \<exists>t v. (key, t) \<in> set O' \<and> get_anydict_value L received key PNone t = Inr v \<and> v \<noteq> PNone}"
    then obtain t v where "(key, t) \<in> set O'" "get_anydict_value L received key PNone t = Inr v" "v \<noteq> PNone"
      by auto
    then have "(key, v) \<in> set (optional_values L received O')"
      by (force simp: optional_values_def required_values_def)
    then show "key \<in> fst ` set (optional_values L received O')" by force
  qed
qed

lemma get_args_Inr:
  assumes "get_args L received required defaultable optional constant = Inr ret"
  shows "lookups_return L received (or_empty required) (or_empty defaultable) (or_empty optional)
       \<and> missing_fields L received (or_empty required) = []
       \<and> ret = merge_groups (required_values L received (or_empty required))
                 (defaultable_values L received (or_empty defaultable))
                 (optional_values L received (or_empty optional))
                 (or_empty constant)"
proof -
  from assms obtain missing d1 d2 d3 where
    l1: "required_loop L received (or_empty required) [] [] = Inr (missing, d1)" and
    l2: "defaultable_loop L received (or_empty defaultable) d1 = Inr d2" and
    l3: "optional_loop L received (or_empty optional) d2 = Inr d3" and
    m: "missing = []" and r: "ret = dict_update d3 (or_empty constant)"
    by (auto simp: get_args_def Let_def split: if_splits sum.splits)
  from required_loop_Inr[OF l1] defaultable_loop_Inr[OF l2] optional_loop_Inr[OF l3] m r
  show ?thesis
    by (simp add: lookups_return_def merge_groups_def)
qed

section \<open>The first exception\<close>

lemma first_error_append:
  "first_error (xs @ ys) = (case first_error xs of Some e \<Rightarrow> Some e | None \<Rightarrow> first_error ys)"
  by (induction xs rule: first_error.induct) simp_all

lemma first_error_None: "first_error rs = None \<longleftrightarrow> list_all returns rs"
  by (induction rs rule: first_error.induct) simp_all

lemma required_loop_first_error:
  "first_error (map (\<lambda>(key, t). get_anydict_value L received key PNone t) R) = Some e \<Longrightarrow>
     required_loop L received R missing ret_dict = Inl e"
proof (induction R arbitrary: missing ret_dict)
  case Nil
  then show ?case by simp
next
  case (Cons p R)
  obtain key t where p: "p = (key, t)" by (cases p)
  show ?case
  proof (cases "get_anydict_value L received key PNone t")
    case (Inl e')
    with Cons.prems show ?thesis by (simp add: p)
  next
    case (Inr val)
    with Cons.prems Cons.IH show ?thesis by (simp add: p)
  qed
qed

lemma defaultable_loop_first_error:
  "first_error (map (\<lambda>(key, dv). get_anydict_value L received key dv (type_of dv)) D) = Some e \<Longrightarrow>
     defaultable_loop L received D ret_dict = Inl e"
proof (induction D arbitrary: ret_dict)
  case Nil
  then show ?case by simp
next
  case (Cons p D)
  obtain key dv where p: "p = (key, dv)" by (cases p)
  show ?case
  proof (cases "get_anydict_value L received key dv (type_of dv)")
    case (Inl e')
    with Cons.prems show ?thesis by (simp add: p)
  next
    case (Inr val)
    with Cons.prems Cons.IH show ?thesis by (simp add: p)
  qed
qed

lemma optional_loop_first_error:
  "first_error (map (\<lambda>(key, t). get_anydict_value L received key PNone t) O') = Some e \<Longrightarrow>
     optional_loop L received O' ret_dict = Inl e"
proof (induction O' arbitrary: ret_dict)
  case Nil
  then show ?case by simp
next
  case (Cons p O')
  obtain key t where p: "p = (key, t)" by (cases p)
  show ?case
  proof (cases "get_anydict_value L received key PNone t")
    case (Inl e')
    with Cons.prems show ?thesis by (simp add: p)
  next
    case (Inr val)
    with Cons.prems Cons.IH show ?thesis by (simp add: p)
  qed
qed

lemma list_all_returns_map:
  "list_all returns (map f xs) = list_all (\<lambda>x. returns (f x)) xs"
  by (simp add: list_all_iff)

lemma get_args_first_error:
  assumes supplied: "\<not> (required = None \<and> defaultable = None \<and> optional = None \<and> constant = None)"
      and fe: "first_error (lookups L received (or_empty required) (or_empty defaultable)
                 (or_empty optional)) = Some e"
  shows "get_args L received required defaultable optional constant = Inl e"
proof -
  let ?R = "map (\<lambda>(key, t). get_anydict_value L received key PNone t) (or_empty required)"
  let ?D = "map (\<lambda>(key, dv). get_anydict_value L received key dv (type_of dv)) (or_empty defaultable)"
  let ?O = "map (\<lambda>(key, t). get_anydict_value L received key PNone t) (or_empty optional)"
  from fe have fe': "first_error (?R @ ?D @ ?O) = Some e" by (simp add: lookups_def)
  show ?thesis
  proof (cases "first_error ?R")
    case (Some e1)
    with fe' have "e1 = e" by (simp add: first_error_append)
    with Some have "required_loop L received (or_empty required) [] [] = Inl e"
      by (simp add: required_loop_first_error)
    with supplied show ?thesis by (auto simp: get_args_def)
  next
    case rn: None
    then have "list_all (\<lambda>(key, t). returns (get_anydict_value L received key PNone t)) (or_empty required)"
      by (simp add: first_error_None list_all_returns_map case_prod_unfold)
    note l1 = required_loop_returns[OF this, of "[]" "[]"]
    show ?thesis
    proof (cases "first_error ?D")
      case (Some e2)
      with fe' rn have "e2 = e" by (simp add: first_error_append)
      with Some have "defaultable_loop L received (or_empty defaultable) ret_dict = Inl e" for ret_dict
        by (simp add: defaultable_loop_first_error)
      with supplied l1 show ?thesis by (auto simp: get_args_def)
    next
      case dn: None
      then have "list_all (\<lambda>(key, dv). returns (get_anydict_value L received key dv (type_of dv)))
          (or_empty defaultable)"
        by (simp add: first_error_None list_all_returns_map case_prod_unfold)
      note l2 = defaultable_loop_returns[OF this]
      from fe' rn dn have "first_error ?O = Some e" by (simp add: first_error_append)
      then have "optional_loop L received (or_empty optional) ret_dict = Inl e" for ret_dict
        by (simp add: optional_loop_first_error)
      with supplied l1 l2 show ?thesis by (auto simp: get_args_def)
    qed
  qed
qed

lemma first_error_append_None:
  "first_error (xs @ ys) = None \<longleftrightarrow> first_error xs = None \<and> first_error ys = None"
  by (simp add: first_error_append split: option.splits)

lemma lookups_return_first_error:
  "lookups_return L received R D O' \<longleftrightarrow> first_error (lookups L received R D O') = None"
  by (simp add: lookups_return_def lookups_def first_error_append_None first_error_None
        list_all_returns_map case_prod_unfold)

section \<open>The output of a successful call\<close>

text \<open>
  C1. When \<^verbatim>\<open>get_args\<close> returns, the returned dictionary is the merge of the four
  contributions in the order required, defaultable, optional, constant; its keys are
  the keys of the required group, those of the defaultable group, the optional keys
  whose lookup gave a value other than \<^verbatim>\<open>None\<close>, and the keys of the constant group;
  and a key of the constant group carries its constant value.
\<close>

theorem get_args_success_output:
  assumes "get_args L received required defaultable optional constant = Inr ret"
  shows "ret = merge_groups (required_values L received (or_empty required))
                 (defaultable_values L received (or_empty defaultable))
                 (optional_values L received (or_empty optional))
                 (or_empty constant)
       \<and> fst ` set ret =
           fst ` set (or_empty required) \<union> fst ` set (or_empty defaultable)
           \<union> {key. \<exists>t v. (key, t) \<in> set (or_empty optional)
                   \<and> get_anydict_value L received key PNone t = Inr v \<and> v \<noteq> PNone}
           \<union> fst ` set (or_empty constant)
       \<and> (\<forall>key v. distinct (map fst (or_empty constant)) \<longrightarrow>
             map_of (or_empty constant) key = Some v \<longrightarrow> map_of ret key = Some v)"
proof -
  from get_args_Inr[OF assms] have
    lr: "lookups_return L received (or_empty required) (or_empty defaultable) (or_empty optional)" and
    r: "ret = merge_groups (required_values L received (or_empty required))
                 (defaultable_values L received (or_empty defaultable))
                 (optional_values L received (or_empty optional))
                 (or_empty constant)"
    by simp_all
  from lr have "list_all (\<lambda>(key, t). returns (get_anydict_value L received key PNone t)) (or_empty optional)"
    by (simp add: lookups_return_def)
  note ko = keys_optional_values[OF this]
  have keys: "fst ` set ret =
           fst ` set (or_empty required) \<union> fst ` set (or_empty defaultable)
           \<union> {key. \<exists>t v. (key, t) \<in> set (or_empty optional)
                   \<and> get_anydict_value L received key PNone t = Inr v \<and> v \<noteq> PNone}
           \<union> fst ` set (or_empty constant)"
    unfolding r merge_groups_def keys_dict_update keys_required_values keys_defaultable_values ko
    by simp
  have const: "map_of ret key = Some v"
    if "distinct (map fst (or_empty constant))" "map_of (or_empty constant) key = Some v" for key v
    unfolding r merge_groups_def using that by (rule constant_wins)
  from r keys const show ?thesis by blast
qed

text \<open>
  The combined call of the repository's test: \<^verbatim>\<open>received = {'a': 1, 'b': 'c'}\<close> with
  all four groups returns \<^verbatim>\<open>{'a': 2, 'c': 2, 'b': 'c'}\<close>.
\<close>

theorem get_args_success_output_witness:
  "get_args stub_libs (Dict [(''a'', PInt 1), (''b'', PStr ''c'')])
     (Some [(''a'', TInt)]) (Some [(''a'', PInt 3), (''c'', PInt 2)])
     (Some [(''a'', TInt), (''b'', TStr)]) (Some [(''a'', PInt 2)])
   = Inr [(''a'', PInt 2), (''c'', PInt 2), (''b'', PStr ''c'')]
   \<and> [(''a'', PInt 2), (''c'', PInt 2), (''b'', PStr ''c'')] =
       merge_groups
         (required_values stub_libs (Dict [(''a'', PInt 1), (''b'', PStr ''c'')]) [(''a'', TInt)])
         (defaultable_values stub_libs (Dict [(''a'', PInt 1), (''b'', PStr ''c'')])
            [(''a'', PInt 3), (''c'', PInt 2)])
         (optional_values stub_libs (Dict [(''a'', PInt 1), (''b'', PStr ''c'')])
            [(''a'', TInt), (''b'', TStr)])
         [(''a'', PInt 2)]
   \<and> map_of [(''a'', PInt 2), (''c'', PInt 2), (''b'', PStr ''c'')] ''a'' = Some (PInt 2)"
proof -
  have h: "get_args stub_libs (Dict [(''a'', PInt 1), (''b'', PStr ''c'')])
     (Some [(''a'', TInt)]) (Some [(''a'', PInt 3), (''c'', PInt 2)])
     (Some [(''a'', TInt), (''b'', TStr)]) (Some [(''a'', PInt 2)])
   = Inr [(''a'', PInt 2), (''c'', PInt 2), (''b'', PStr ''c'')]"
    by (simp add: get_args_def dict_get_def isinstance_def issubclass_def)
  note t = get_args_success_output[OF h, unfolded or_empty_simps]
  from t have a: "[(''a'', PInt 2), (''c'', PInt 2), (''b'', PStr ''c'')] =
       merge_groups
         (required_values stub_libs (Dict [(''a'', PInt 1), (''b'', PStr ''c'')]) [(''a'', TInt)])
         (defaultable_values stub_libs (Dict [(''a'', PInt 1), (''b'', PStr ''c'')])
            [(''a'', PInt 3), (''c'', PInt 2)])
         (optional_values stub_libs (Dict [(''a'', PInt 1), (''b'', PStr ''c'')])
            [(''a'', TInt), (''b'', TStr)])
         [(''a'', PInt 2)]"
    by (rule conjunct1)
  from t have "\<forall>key v. distinct (map fst [(''a'', PInt 2)]) \<longrightarrow>
      map_of [(''a'', PInt 2)] key = Some v \<longrightarrow>
      map_of [(''a'', PInt 2), (''c'', PInt 2), (''b'', PStr ''c'')] key = Some v"
    by (rule conjunct2[OF conjunct2])
  then have c: "map_of [(''a'', PInt 2), (''c'', PInt 2), (''b'', PStr ''c'')] ''a'' = Some (PInt 2)"
    by simp
  from h a c show ?thesis by (intro conjI)
qed

section \<open>Missing required fields\<close>

text \<open>
  C2 (as amended). When the lookup of a required field yields \<^verbatim>\<open>None\<close>, the call
  returns no dictionary: it ends with an exception, and the field is among the missing
  fields. When every lookup of the call returns, the exception is the
  \<^verbatim>\<open>AppException\<close> whose message is \<^verbatim>\<open>Missing following arguments:\<close> followed by
  each missing required field, every one preceded by a space, in the order of the
  required group. Otherwise a lookup raises, and the exception of the call is the
  exception of the first lookup that raises, in the order required, defaultable,
  optional.
\<close>

theorem get_args_missing_required:
  assumes "(key, t) \<in> set (or_empty required)"
      and "get_anydict_value L received key PNone t = Inr PNone"
  shows "(\<exists>e. get_args L received required defaultable optional constant = Inl e)
       \<and> key \<in> set (missing_fields L received (or_empty required))
       \<and> (lookups_return L received (or_empty required) (or_empty defaultable) (or_empty optional) \<longrightarrow>
            get_args L received required defaultable optional constant =
              Inl (AppException (''Missing following arguments:'' @
                     concat (map (\<lambda>arg. '' '' @ arg) (missing_fields L received (or_empty required))))))
       \<and> (\<not> lookups_return L received (or_empty required) (or_empty defaultable) (or_empty optional) \<longrightarrow>
            (\<exists>e. first_error (lookups L received (or_empty required) (or_empty defaultable)
                     (or_empty optional)) = Some e
                 \<and> get_args L received required defaultable optional constant = Inl e))"
proof -
  from assms have k: "key \<in> set (missing_fields L received (or_empty required))"
    by (force simp: missing_fields_def)
  from assms(1) have supplied: "required \<noteq> None" by (cases required) auto
  have raises: "\<exists>e. first_error (lookups L received (or_empty required) (or_empty defaultable)
                     (or_empty optional)) = Some e
                 \<and> get_args L received required defaultable optional constant = Inl e"
    if nr: "\<not> lookups_return L received (or_empty required) (or_empty defaultable) (or_empty optional)"
  proof -
    from nr obtain e where fe: "first_error (lookups L received (or_empty required)
        (or_empty defaultable) (or_empty optional)) = Some e"
      by (auto simp: lookups_return_first_error)
    from supplied have "\<not> (required = None \<and> defaultable = None \<and> optional = None \<and> constant = None)"
      by simp
    from get_args_first_error[OF this fe] fe show ?thesis by blast
  qed
  have msg: "get_args L received required defaultable optional constant =
              Inl (AppException (''Missing following arguments:'' @
                     concat (map (\<lambda>arg. '' '' @ arg) (missing_fields L received (or_empty required)))))"
    if lr: "lookups_return L received (or_empty required) (or_empty defaultable) (or_empty optional)"
  proof -
    from lr have
      r: "list_all (\<lambda>(key, t). returns (get_anydict_value L received key PNone t)) (or_empty required)" and
      d: "list_all (\<lambda>(key, dv). returns (get_anydict_value L received key dv (type_of dv))) (or_empty defaultable)" and
      o: "list_all (\<lambda>(key, t). returns (get_anydict_value L received key PNone t)) (or_empty optional)"
      by (simp_all add: lookups_return_def)
    from k have ne: "missing_fields L received (or_empty required) \<noteq> []" by auto
    show ?thesis
      using supplied ne
      by (simp add: get_args_def required_loop_returns[OF r] defaultable_loop_returns[OF d]
            optional_loop_returns[OF o] missing_msg_concat Let_def)
  qed
  have fails: "\<exists>e. get_args L received required defaultable optional constant = Inl e"
    using msg raises by blast
  from fails k msg raises show ?thesis by blast
qed

text \<open>
  In the first call three required fields are missing, one of them present with a
  value of another class, and the defaultable and the constant group do not change the
  outcome. In the second call the required field \<^verbatim>\<open>x\<close> is missing and the lookup of
  the defaultable field \<^verbatim>\<open>d\<close> raises.
\<close>

theorem get_args_missing_required_witness:
  "get_args stub_libs (Dict [(''a'', PStr ''1'')])
     (Some [(''x'', TInt), (''a'', TInt), (''y'', TStr)]) (Some [(''c'', PInt 2)]) None
     (Some [(''k'', PInt 0)])
   = Inl (AppException ''Missing following arguments: x a y'')
   \<and> get_args stub_libs (Dict [(''d'', PStr [])])
     (Some [(''x'', TInt)]) (Some [(''d'', PDateTime 0)]) None None
   = Inl (ValueError ''String does not contain a date.'')"
proof -
  have m: "(''x'', TInt) \<in> set (or_empty (Some [(''x'', TInt), (''a'', TInt), (''y'', TStr)]))"
    by simp
  have a: "get_anydict_value stub_libs (Dict [(''a'', PStr ''1'')]) ''x'' PNone TInt = Inr PNone"
    by (simp add: dict_get_def isinstance_def issubclass_def)
  have lr: "lookups_return stub_libs (Dict [(''a'', PStr ''1'')])
              (or_empty (Some [(''x'', TInt), (''a'', TInt), (''y'', TStr)]))
              (or_empty (Some [(''c'', PInt 2)])) (or_empty None)"
    by (simp add: lookups_return_def dict_get_def isinstance_def issubclass_def)
  have mf: "missing_fields stub_libs (Dict [(''a'', PStr ''1'')])
              [(''x'', TInt), (''a'', TInt), (''y'', TStr)] = [''x'', ''a'', ''y'']"
    by (simp add: missing_fields_def dict_get_def isinstance_def issubclass_def)
  from get_args_missing_required[OF m a, of "Some [(''c'', PInt 2)]" None "Some [(''k'', PInt 0)]"] lr
  have first: "get_args stub_libs (Dict [(''a'', PStr ''1'')])
     (Some [(''x'', TInt), (''a'', TInt), (''y'', TStr)]) (Some [(''c'', PInt 2)]) None
     (Some [(''k'', PInt 0)])
   = Inl (AppException ''Missing following arguments: x a y'')"
    by (simp add: mf)
  have m2: "(''x'', TInt) \<in> set (or_empty (Some [(''x'', TInt)]))" by simp
  have a2: "get_anydict_value stub_libs (Dict [(''d'', PStr [])]) ''x'' PNone TInt = Inr PNone"
    by (simp add: dict_get_def isinstance_def issubclass_def)
  have fe: "first_error (lookups stub_libs (Dict [(''d'', PStr [])]) [(''x'', TInt)]
              [(''d'', PDateTime 0)] []) = Some (ValueError ''String does not contain a date.'')"
    by (simp add: lookups_def dict_get_def isinstance_def issubclass_def stub_libs_def)
  then have nlr: "\<not> lookups_return stub_libs (Dict [(''d'', PStr [])]) [(''x'', TInt)]
              [(''d'', PDateTime 0)] []"
    by (simp add: lookups_return_first_error)
  from get_args_missing_required[OF m2 a2, of "Some [(''d'', PDateTime 0)]" None None] nlr fe
  have second: "get_args stub_libs (Dict [(''d'', PStr [])])
     (Some [(''x'', TInt)]) (Some [(''d'', PDateTime 0)]) None None
   = Inl (ValueError ''String does not contain a date.'')"
    by simp
  from first second show ?thesis by (intro conjI)
qed

text \<open>
  As the claim is written it fails: the required field \<^verbatim>\<open>x\<close> is absent, and the call
  ends with the \<^verbatim>\<open>ValueError\<close> of the date parser, raised for the optional field
  \<^verbatim>\<open>d\<close>, instead of the message that lists \<^verbatim>\<open>x\<close>.
\<close>

theorem get_args_missing_counterexample:
  "get_anydict_value stub_libs (Dict [(''d'', PStr [])]) ''x'' PNone TInt = Inr PNone
   \<and> get_args stub_libs (Dict [(''d'', PStr [])])
       (Some [(''x'', TInt)]) None (Some [(''d'', TDateTime)]) None
     = Inl (ValueError ''String does not contain a date.'')"
  by (simp add: get_args_def dict_get_def isinstance_def issubclass_def stub_libs_def)

section \<open>Defaultable fields\<close>

lemma parse_value_own_type: "parse_value L v (type_of v) = Inr v"
  by (cases v) (simp_all add: isinstance_def issubclass_def)

lemma defaultable_missing_key:
  "map_of d key = None \<Longrightarrow>
     get_anydict_value L (Dict d) key default_value (type_of default_value) = Inr default_value"
  by (simp add: dict_get_def parse_value_own_type)

text \<open>
  C3. A defaultable field whose key is in the source with a value of another class than
  the default's does not fall back to the default: \<^verbatim>\<open>parse_value\<close> turns the value
  into \<^verbatim>\<open>None\<close>, and the loop stores \<^verbatim>\<open>None\<close> under the key. Here the source is
  \<^verbatim>\<open>{'a': 's'}\<close> and the group \<^verbatim>\<open>{'a': 3}\<close>; the call returns \<^verbatim>\<open>{'a': None}\<close>.
\<close>

theorem defaultable_wrong_type_gives_none:
  "get_args L (Dict [(''a'', PStr ''s'')]) None (Some [(''a'', PInt 3)]) None None
     = Inr [(''a'', PNone)]"
  by (simp add: get_args_def dict_get_def isinstance_def issubclass_def)

section \<open>Calls without groups\<close>

text \<open>
  C4 (as amended). A call that omits all four groups fails with the
  \<^verbatim>\<open>AppException\<close> that asks for a group. A call that passes at least one group, all
  passed groups being empty, does not fail: it returns the empty dictionary.
\<close>

theorem get_args_no_groups:
  "get_args L received None None None None =
     Inl (AppException
            ''One of the following is required: required, defaultable, optional or constant.'')
   \<and> (or_empty required = [] \<and> or_empty defaultable = [] \<and> or_empty optional = []
        \<and> or_empty constant = []
        \<and> \<not> (required = None \<and> defaultable = None \<and> optional = None \<and> constant = None)
      \<longrightarrow> get_args L received required defaultable optional constant = Inr [])"
  by (auto simp: get_args_def)

theorem get_args_no_groups_witness:
  "get_args stub_libs (Other ''NoneType'') None (Some []) None None = Inr []"
  using get_args_no_groups[of stub_libs "Other ''NoneType''" None "Some []" None None]
  by simp

text \<open>
  As the claim is written it fails: with four empty groups the call returns the
  empty dictionary.
\<close>

theorem get_args_empty_group_counterexample:
  "get_args stub_libs (Dict [(''a'', PInt 1), (''b'', PStr ''c'')]) (Some []) (Some []) (Some []) (Some [])
     = Inr []"
  by (simp add: get_args_def)

section \<open>Coercion\<close>

text \<open>
  C5 (as amended). For a string and the declared type date-time, \<^verbatim>\<open>parse_value\<close> is
  the result of the date parser, its exception included. In every other case nothing
  is raised: the value is passed through unchanged when it is an instance of the
  declared type (of that class or of a subclass), and the result is \<^verbatim>\<open>None\<close>
  otherwise; in particular a value whose class is the declared type is passed through.
  An exception of \<^verbatim>\<open>parse_value\<close> is an exception of the date parser on a string.
\<close>

theorem parse_value_cases:
  "parse_value L (PStr s) TDateTime =
     (case dateutil_parse L s of Inl e \<Rightarrow> Inl e | Inr d \<Rightarrow> Inr (PDateTime d))
   \<and> (\<not> (t = TDateTime \<and> (\<exists>s. v = PStr s)) \<longrightarrow>
        parse_value L v t = Inr (if isinstance v t then v else PNone))
   \<and> (type_of v = t \<longrightarrow> parse_value L v t = Inr v)
   \<and> (parse_value L v t = Inl e \<longrightarrow>
        (\<exists>s. v = PStr s \<and> t = TDateTime \<and> dateutil_parse L s = Inl e))"
  using parse_value_no_date[of t v L] parse_value_own_type[of L v] parse_value_Inl[of L v t e]
  by auto

theorem parse_value_cases_witness:
  "parse_value stub_libs (PStr ''2018-05-01'') TDateTime = Inr (PDateTime 0)
   \<and> parse_value stub_libs (PInt 5) TStr = Inr PNone
   \<and> parse_value stub_libs (PInt 5) TInt = Inr (PInt 5)
   \<and> parse_value stub_libs (PInt 5) TObject = Inr (PInt 5)"
  using parse_value_cases[of stub_libs "''2018-05-01''" TStr "PInt 5"]
        parse_value_cases[of stub_libs "''2018-05-01''" TInt "PInt 5"]
        parse_value_cases[of stub_libs "''2018-05-01''" TObject "PInt 5"]
  by (simp add: stub_libs_def isinstance_def issubclass_def)

text \<open>
  As the claim is written it fails twice: the date parser raises on a string that
  holds no date, and \<^verbatim>\<open>True\<close>, whose class is \<^verbatim>\<open>bool\<close> and not \<^verbatim>\<open>int\<close>, is
  passed through for the declared type \<^verbatim>\<open>int\<close>.
\<close>

theorem parse_value_counterexample:
  "parse_value stub_libs (PStr []) TDateTime = Inl (ValueError ''String does not contain a date.'')
   \<and> type_of (PBool True) \<noteq> TInt
   \<and> parse_value stub_libs (PBool True) TInt = Inr (PBool True)"
  by (simp add: stub_libs_def isinstance_def issubclass_def)

section \<open>Sources of an unsupported class\<close>









section \<open>Calls with the constant group only\<close>

text \<open>
  C10. A call that passes only the constant group succeeds whatever the source is, a
  source of an unsupported class included: no lookup is made, and the result is the
  dictionary built from the items of the constant group, which maps as the constant
  group does and, the keys of a dictionary being distinct, is the constant group.
\<close>

theorem get_args_constant_only:
  "get_args L received None None None (Some constant) = Inr (dict_update [] constant)
   \<and> map_of (dict_update [] constant) = map_of (rev constant)
   \<and> (distinct (map fst constant) \<longrightarrow> dict_update [] constant = constant)"
  by (simp add: get_args_def dict_update_empty map_of_dict_update)

theorem get_args_constant_only_witness:
  "get_args stub_libs (Other ''NoneType'') None None None (Some [(''a'', PInt 2), (''b'', PNone)])
     = Inr [(''a'', PInt 2), (''b'', PNone)]"
  using get_args_constant_only[of stub_libs "Other ''NoneType''" "[(''a'', PInt 2), (''b'', PNone)]"]
  by simp

section \<open>The store\<close>

lemma setitem_simps [simp]:
  "dicts (setitem a key val s) = (dicts s)(a := AList.update key val (dicts s a))"
  "typedicts (setitem a key val s) = typedicts s"
  "next_free (setitem a key val s) = next_free s"
  by (simp_all add: setitem_def)

lemma source_of_setitem [simp]:
  "received \<noteq> DictAt ret \<Longrightarrow> source_of (setitem ret key val s) received = source_of s received"
  by (cases received) auto

lemma source_of_write [simp]:
  "received \<noteq> DictAt ret \<Longrightarrow> source_of (s\<lparr>dicts := (dicts s)(ret := d)\<rparr>) received = source_of s received"
  by (cases received) auto

lemma items_nonempty_ref: "items objs (nonempty_ref objs grp) = or_empty (map_option objs grp)"
  by (cases grp) (auto simp: items_def nonempty_ref_def)





lemma write_same [simp]: "s\<lparr>dicts := (dicts s)(ret := dicts s ret)\<rparr> = s"
  by simp




















section \<open>The configuration loader\<close>

lemma add_config_from_env_cases:
  "(map_of environ env_variable = Some val \<longrightarrow>
      add_config_from_env environ config config_key env_variable missing_list default_value =
        (True, AList.update config_key (PStr val) config, missing_list))
   \<and> (map_of environ env_variable = None \<and> truthy default_value \<longrightarrow>
      add_config_from_env environ config config_key env_variable missing_list default_value =
        (True, AList.update config_key default_value config, missing_list))
   \<and> (map_of environ env_variable = None \<and> \<not> truthy default_value \<longrightarrow>
      add_config_from_env environ config config_key env_variable missing_list default_value =
        (False, config, map_option (\<lambda>l. l @ [env_variable]) missing_list))"
  by (cases missing_list) (simp_all add: add_config_from_env_def)

text \<open>
  C8. With the environment variable undefined and the default \<^verbatim>\<open>False\<close> supplied,
  \<^verbatim>\<open>_add_config_from_env\<close> stores nothing, records the variable as missing and
  returns \<^verbatim>\<open>False\<close>: the test \<^verbatim>\<open>elif default_value:\<close> takes a supplied default that
  is false in a condition for no default at all.
\<close>

theorem add_config_falsy_default:
  "add_config_from_env [] config ''DEBUG'' ''TIKKI_DEBUG'' (Some missing_list) (PBool False)
     = (False, config, Some (missing_list @ [''TIKKI_DEBUG'']))"
  by (simp add: add_config_from_env_def)

section \<open>The claims of an identity token\<close>

text \<open>
  C9. \<^verbatim>\<open>create_jwt_identity\<close> returns the dictionary with exactly the keys
  \<^verbatim>\<open>sub\<close>, \<^verbatim>\<open>rol\<close>, \<^verbatim>\<open>iat\<close> and \<^verbatim>\<open>exp\<close>: the user's id as a string, the
  user's type id, the timestamp of the clock reading and the timestamp of the instant
  one day after the reading. Where the timestamp of a date-time one day later is
  86400 seconds larger (the local time of the process keeps its offset from UTC over
  that day), \<^verbatim>\<open>exp\<close> is \<^verbatim>\<open>iat\<close> plus 86400.
\<close>

theorem create_jwt_identity_claims:
  "create_jwt_identity P user =
     [(''sub'', PStr (str_of_id P (user_id user))), (''rol'', type_id user),
      (''iat'', PInt (timestamp P (utcnow P))),
      (''exp'', PInt (timestamp P (utcnow P + timedelta_days 1)))]
   \<and> map fst (create_jwt_identity P user) = [''sub'', ''rol'', ''iat'', ''exp'']
   \<and> ((\<forall>d. timestamp P (d + timedelta_days 1) = timestamp P d + 86400) \<longrightarrow>
        map_of (create_jwt_identity P user) ''exp'' = Some (PInt (timestamp P (utcnow P) + 86400)))"
  by (simp add: create_jwt_identity_def Let_def)

theorem create_jwt_identity_claims_witness:
  "create_jwt_identity example_platform \<lparr>user_id = ''42'', type_id = PInt 1\<rparr> =
     [(''sub'', PStr ''42''), (''rol'', PInt 1), (''iat'', PInt 1541289600),
      (''exp'', PInt 1541376000)]
   \<and> map_of (create_jwt_identity example_platform \<lparr>user_id = ''42'', type_id = PInt 1\<rparr>) ''exp''
       = Some (PInt (1541289600 + 86400))"
proof -
  have "(d + 86400 * 1000000) div 1000000 = d div 1000000 + 86400" for d :: int
    by simp
  then have h: "\<forall>d. timestamp example_platform (d + timedelta_days 1) = timestamp example_platform d + 86400"
    by (simp add: example_platform_def timedelta_days_def)
  from create_jwt_identity_claims[of example_platform "\<lparr>user_id = ''42'', type_id = PInt 1\<rparr>"] h
  show ?thesis by (simp add: example_platform_def timedelta_days_def)
qed

end
